theory Spec2Isabelle
  imports Complex_Main
begin

section \<open>Appointment scheduling and lifecycle (backend/src/routes/appointments.ts)\<close>

text \<open>
  The three mutating handlers of the appointment router are embedded as functions on an
  explicit database state: \<open>router.post('/')\<close> as \<open>create_appointment\<close>,
  \<open>router.put('/:id')\<close> as \<open>update_appointment\<close> and \<open>router.patch('/:id/cancel')\<close>
  as \<open>cancel_appointment\<close>. Each returns the response (an error or the stored row) together
  with the database after the request. A handler that throws has written nothing, so the
  error branches return the database they were given.

  Conventions of the embedding:
  \<^item> a handler starts where its middleware (authentication, e-mail verification, the Joi
    schema of the body) has accepted the request;
  \<^item> a \<open>Date\<close> is its \<open>getTime()\<close> value, an \<open>int\<close> of milliseconds;
  \<^item> every \<open>new Date()\<close> of a handler is a clock reading passed as an argument;
  \<^item> a JavaScript \<open>number\<close> holding money is a \<open>number\<close>, an IEEE double: a rational or
    one of the special values, with products and quotients rounded to the nearest double
    (the sign of zero is not kept);
  \<^item> the time zone of the server, which \<open>addDays\<close> of date-fns depends on, is an argument
    of the handler that calls it;
  \<^item> an optional property of a request body is an \<open>option\<close>, \<open>None\<close> when the key is absent;
  \<^item> the identifier Prisma generates for a new row is an argument of the handler;
  \<^item> the confirmation emails sent after a successful creation are inside a \<open>try/catch\<close> that
    only logs, they cannot change the response or the database, and are left out.
\<close>

subsection \<open>Data model\<close>

type_synonym ident = string
type_synonym time = int

datatype status = SCHEDULED | CONFIRMED | IN_PROGRESS | COMPLETED | CANCELLED | NO_SHOW

datatype serviceType =
  SPEECH_THERAPY | OCCUPATIONAL_THERAPY | PHYSICAL_THERAPY | LITERACY_SUPPORT
  | GROUP_SESSION | EVALUATION

datatype role = FAMILY | SLP | OT | PT | OTA | PTA | SCHOOL | ADMIN

text \<open>A JavaScript \<open>number\<close>: a finite double, given by its value, or a special value.\<close>

datatype number = Num rat | PosInfinity | NegInfinity | NaN

text \<open>The authenticated caller, \<open>req.user\<close>.\<close>

record user =
  u_id :: ident
  u_role :: role

text \<open>A row of \<open>providerProfile\<close>; \<open>p_hourlyRate\<close> is nullable.\<close>

record provider =
  p_id :: ident
  p_userId :: ident
  p_hourlyRate :: "number option"
  licenseVerified :: bool
  backgroundCheck :: bool

text \<open>
  A row of \<open>appointment\<close>. The columns that none of the three handlers writes
  (\<open>paymentStatus\<close>, written by the payment routes, and the audit timestamps kept by the
  persistence layer) are left out.
\<close>

record appointment =
  id' :: ident
  clientId :: ident
  providerId :: ident
  serviceType :: serviceType
  title :: string
  description :: "string option"
  startTime :: time
  endTime :: time
  duration :: int
  isRemote :: bool
  location :: "string option"
  meetingLink :: "string option"
  notes' :: "string option"
  goals :: "string option"
  materials :: "string list"
  homework :: "string option"
  hourlyRate :: number
  totalAmount :: number
  status :: status
  cancelledAt :: "time option"
  cancellationReason :: "string option"

record db =
  providerProfiles :: "provider list"
  appointments :: "appointment list"

text \<open>The body accepted by \<open>schemas.createAppointment\<close>.\<close>

record createAppointment =
  req_providerId :: ident
  req_serviceType :: serviceType
  req_title :: string
  req_description :: "string option"
  req_startTime :: time
  req_endTime :: time
  req_isRemote :: "bool option"
  req_location :: "string option"
  req_notes :: "string option"
  req_goals :: "string option"
  req_materials :: "string list option"

text \<open>The body accepted by \<open>schemas.updateAppointment\<close>: every key is optional.\<close>

record updateAppointment =
  upd_title :: "string option"
  upd_description :: "string option"
  upd_startTime :: "time option"
  upd_endTime :: "time option"
  upd_status :: "status option"
  upd_isRemote :: "bool option"
  upd_location :: "string option"
  upd_meetingLink :: "string option"
  upd_notes :: "string option"
  upd_goals :: "string option"
  upd_materials :: "string list option"
  upd_homework :: "string option"
  upd_cancellationReason :: "string option"

text \<open>
  The body of the cancel request is not validated: \<open>reason\<close> may be absent (Prisma then
  leaves the column as it is), \<open>null\<close> or a string.
\<close>

datatype reason = Absent | Null | Text string

text \<open>
  One constructor for each \<open>createError\<close> of the three handlers, and \<open>InternalError\<close> for
  the \<open>TypeError\<close> of reading \<open>appointment.provider.userId\<close> on a row without provider.
\<close>

datatype error =
    ProviderNotFound
  | ProviderNotVerified
  | PastBooking
  | BookingTooFarOut
  | SchedulingConflict
  | AppointmentNotFound
  | AccessDenied
  | IllegalStatusTransition status status
  | CannotBeCancelled
  | InternalError

subsection \<open>Dates (date-fns)\<close>

definition isBefore :: "time \<Rightarrow> time \<Rightarrow> bool" where
  "isBefore date dateToCompare \<longleftrightarrow> date < dateToCompare"

definition isAfter :: "time \<Rightarrow> time \<Rightarrow> bool" where
  "isAfter date dateToCompare \<longleftrightarrow> date > dateToCompare"

text \<open>
  The time zone of the server, as the two conversions of the language: \<open>localTime\<close> takes
  an instant to the local time value (\<open>LocalTime(t)\<close>), \<open>utcTime\<close> takes a local time value
  back to the instant (\<open>UTC(t)\<close>).
\<close>

record zone =
  localTime :: "time \<Rightarrow> time"
  utcTime :: "time \<Rightarrow> time"

text \<open>
  \<open>addDays\<close> is \<open>date.setDate(date.getDate() + amount)\<close>: it moves the calendar day of the
  local time and keeps the local time of day, so the result is the instant that has the
  local time value of \<open>date\<close> plus \<open>amount\<close> days of 86400000 ms.
\<close>

definition addDays :: "zone \<Rightarrow> time \<Rightarrow> int \<Rightarrow> time" where
  "addDays z date amount = utcTime z (localTime z date + amount * 86400000)"

subsection \<open>Numbers (IEEE doubles)\<close>

text \<open>The number of binary digits of a positive integer.\<close>

function bitLength :: "int \<Rightarrow> nat" where
  "bitLength n = (if n \<le> 0 then 0 else Suc (bitLength (n div 2)))"
  by pat_completeness auto
termination
  by (relation "measure nat") auto

text \<open>For \<open>a > 0\<close>, the exponent \<open>k\<close> with \<open>2^k \<le> a < 2^(k+1)\<close>.\<close>

definition ilog2 :: "rat \<Rightarrow> int" where
  "ilog2 a =
     (if 1 \<le> a then int (bitLength \<lfloor>a\<rfloor>) - 1
      else - int (bitLength (\<lceil>1 / a\<rceil> - 1)))"

text \<open>The nearest integer, a tie going to the even one.\<close>

definition roundHalfEven :: "rat \<Rightarrow> int" where
  "roundHalfEven x =
     (let f = \<lfloor>x\<rfloor>; d = x - of_int f
      in if d < 1 / 2 then f
         else if 1 / 2 < d then f + 1
         else if even f then f else f + 1)"

text \<open>
  The double nearest to a rational (round to nearest, ties to even): the value is rounded
  to a multiple of \<open>2^e\<close>, where \<open>e\<close> leaves 53 binary digits and is at least \<open>-1074\<close>
  (the subnormal range); a result of \<open>2^1024\<close> or more is an infinity.
\<close>

definition toDouble :: "rat \<Rightarrow> number" where
  "toDouble x =
     (if x = 0 then Num 0
      else let e = max (ilog2 \<bar>x\<bar> - 52) (- 1074);
               r = of_int (roundHalfEven (\<bar>x\<bar> / 2 powi e)) * 2 powi e
           in if 2 powi 1024 \<le> r then (if 0 < x then PosInfinity else NegInfinity)
              else Num (if x < 0 then - r else r))"

text \<open>The operators \<open>*\<close> and \<open>/\<close> of the language on numbers.\<close>

fun times_number :: "number \<Rightarrow> number \<Rightarrow> number" where
  "times_number NaN _ = NaN"
| "times_number _ NaN = NaN"
| "times_number (Num x) (Num y) = toDouble (x * y)"
| "times_number (Num x) PosInfinity =
     (if x = 0 then NaN else if 0 < x then PosInfinity else NegInfinity)"
| "times_number (Num x) NegInfinity =
     (if x = 0 then NaN else if 0 < x then NegInfinity else PosInfinity)"
| "times_number PosInfinity (Num y) =
     (if y = 0 then NaN else if 0 < y then PosInfinity else NegInfinity)"
| "times_number NegInfinity (Num y) =
     (if y = 0 then NaN else if 0 < y then NegInfinity else PosInfinity)"
| "times_number PosInfinity PosInfinity = PosInfinity"
| "times_number PosInfinity NegInfinity = NegInfinity"
| "times_number NegInfinity PosInfinity = NegInfinity"
| "times_number NegInfinity NegInfinity = PosInfinity"

text \<open>
  A zero divisor is taken as \<open>+0\<close>; the handlers divide by the constants 60 only.
\<close>

fun divide_number :: "number \<Rightarrow> number \<Rightarrow> number" where
  "divide_number NaN _ = NaN"
| "divide_number _ NaN = NaN"
| "divide_number (Num x) (Num y) =
     (if y = 0 then (if x = 0 then NaN else if 0 < x then PosInfinity else NegInfinity)
      else toDouble (x / y))"
| "divide_number (Num x) PosInfinity = Num 0"
| "divide_number (Num x) NegInfinity = Num 0"
| "divide_number PosInfinity (Num y) = (if 0 \<le> y then PosInfinity else NegInfinity)"
| "divide_number NegInfinity (Num y) = (if 0 \<le> y then NegInfinity else PosInfinity)"
| "divide_number PosInfinity PosInfinity = NaN"
| "divide_number PosInfinity NegInfinity = NaN"
| "divide_number NegInfinity PosInfinity = NaN"
| "divide_number NegInfinity NegInfinity = NaN"

text \<open>\<open>value || 0\<close> for a nullable number: \<open>null\<close>, zero and \<open>NaN\<close> are falsy.\<close>

definition orZero :: "number option \<Rightarrow> number" where
  "orZero v = (case v of None \<Rightarrow> Num 0 | Some n \<Rightarrow> if n = Num 0 \<or> n = NaN then Num 0 else n)"

subsection \<open>Queries\<close>

definition findProvider :: "db \<Rightarrow> ident \<Rightarrow> provider option" where
  "findProvider d i = find (\<lambda>p. p_id p = i) (providerProfiles d)"

definition findAppointment :: "db \<Rightarrow> ident \<Rightarrow> appointment option" where
  "findAppointment d i = find (\<lambda>a. id' a = i) (appointments d)"

text \<open>The \<open>where\<close> clause of the conflict query of \<open>router.post('/')\<close>.\<close>

definition conflictWhere :: "ident \<Rightarrow> time \<Rightarrow> time \<Rightarrow> appointment \<Rightarrow> bool" where
  "conflictWhere pid startT endT a \<longleftrightarrow>
     providerId a = pid \<and>
     status a \<in> set [SCHEDULED, CONFIRMED, IN_PROGRESS] \<and>
     ((startT \<le> startTime a \<and> startTime a < endT) \<or>
      (startT < endTime a \<and> endTime a \<le> endT))"

definition updateRow :: "db \<Rightarrow> ident \<Rightarrow> (appointment \<Rightarrow> appointment) \<Rightarrow> db" where
  "updateRow d i f =
     d\<lparr>appointments := map (\<lambda>a. if id' a = i then f a else a) (appointments d)\<rparr>"

subsection \<open>Create appointment\<close>

text \<open>\<open>Math.round(ms / (1000 * 60))\<close>: the nearest integer, a half rounded up.\<close>

definition roundMinutes :: "int \<Rightarrow> int" where
  "roundMinutes ms = (ms + 30000) div 60000"

definition newAppointment ::
  "user \<Rightarrow> provider \<Rightarrow> createAppointment \<Rightarrow> ident \<Rightarrow> appointment" where
  "newAppointment currentUser prov appointmentData newId =
     (let startT = req_startTime appointmentData;
          endT = req_endTime appointmentData;
          dur = roundMinutes (endT - startT);
          rate = orZero (p_hourlyRate prov);
          total = divide_number (times_number rate (Num (of_int dur))) (Num 60)
      in \<lparr> id' = newId,
           clientId = u_id currentUser,
           providerId = req_providerId appointmentData,
           serviceType = req_serviceType appointmentData,
           title = req_title appointmentData,
           description = req_description appointmentData,
           startTime = startT,
           endTime = endT,
           duration = dur,
           isRemote = (case req_isRemote appointmentData of None \<Rightarrow> False | Some b \<Rightarrow> b),
           location = req_location appointmentData,
           meetingLink = None,
           notes' = req_notes appointmentData,
           goals = req_goals appointmentData,
           materials = (case req_materials appointmentData of None \<Rightarrow> [] | Some m \<Rightarrow> m),
           homework = None,
           hourlyRate = rate,
           totalAmount = total,
           status = SCHEDULED,
           cancelledAt = None,
           cancellationReason = None \<rparr>)"

text \<open>
  \<open>z\<close> is the time zone of the server, \<open>now1\<close> the clock read by the past check and
  \<open>now2\<close> the one read by the horizon check.
\<close>

definition create_appointment ::
  "zone \<Rightarrow> db \<Rightarrow> user \<Rightarrow> createAppointment \<Rightarrow> time \<Rightarrow> time \<Rightarrow> ident
     \<Rightarrow> (error + appointment) \<times> db" where
  "create_appointment z d currentUser appointmentData now1 now2 newId =
     (case findProvider d (req_providerId appointmentData) of
        None \<Rightarrow> (Inl ProviderNotFound, d)
      | Some prov \<Rightarrow>
          if \<not> licenseVerified prov \<or> \<not> backgroundCheck prov then (Inl ProviderNotVerified, d)
          else if isBefore (req_startTime appointmentData) now1 then (Inl PastBooking, d)
          else if isAfter (req_startTime appointmentData) (addDays z now2 90)
            then (Inl BookingTooFarOut, d)
          else
            (case find (conflictWhere (req_providerId appointmentData)
                          (req_startTime appointmentData) (req_endTime appointmentData))
                    (appointments d) of
               Some conflictingAppointment \<Rightarrow> (Inl SchedulingConflict, d)
             | None \<Rightarrow>
                 (let appt = newAppointment currentUser prov appointmentData newId
                  in (Inr appt, d\<lparr>appointments := appointments d @ [appt]\<rparr>))))"

subsection \<open>Update appointment\<close>

fun validTransitions :: "status \<Rightarrow> status list" where
  "validTransitions SCHEDULED = [CONFIRMED, CANCELLED]"
| "validTransitions CONFIRMED = [IN_PROGRESS, CANCELLED]"
| "validTransitions IN_PROGRESS = [COMPLETED, CANCELLED]"
| "validTransitions COMPLETED = []"
| "validTransitions CANCELLED = []"
| "validTransitions NO_SHOW = []"

text \<open>
  The permission test shared by update and cancel. The disjunction short-circuits: the
  provider row is read only when the caller is neither an admin nor the client.
\<close>

definition hasPermission :: "db \<Rightarrow> user \<Rightarrow> appointment \<Rightarrow> error + bool" where
  "hasPermission d currentUser a =
     (if u_role currentUser = ADMIN \<or> clientId a = u_id currentUser then Inr True
      else (case findProvider d (providerId a) of
              None \<Rightarrow> Inl InternalError
            | Some prov \<Rightarrow> Inr (p_userId prov = u_id currentUser)))"

definition orElse :: "'a option \<Rightarrow> 'a \<Rightarrow> 'a" where
  "orElse v old = (case v of None \<Rightarrow> old | Some x \<Rightarrow> x)"

definition orKeep :: "'a option \<Rightarrow> 'a option \<Rightarrow> 'a option" where
  "orKeep v old = (case v of None \<Rightarrow> old | Some x \<Rightarrow> Some x)"

text \<open>
  The \<open>data\<close> of the update: every key of the body, and \<open>cancelledAt\<close> when the requested
  status is \<open>CANCELLED\<close>. No other column is written; \<open>duration\<close> in particular is not a key
  of the schema.
\<close>

definition updateData :: "updateAppointment \<Rightarrow> time \<Rightarrow> appointment \<Rightarrow> appointment" where
  "updateData u now a =
     a\<lparr> title := orElse (upd_title u) (title a),
        description := orKeep (upd_description u) (description a),
        startTime := orElse (upd_startTime u) (startTime a),
        endTime := orElse (upd_endTime u) (endTime a),
        status := orElse (upd_status u) (status a),
        isRemote := orElse (upd_isRemote u) (isRemote a),
        location := orKeep (upd_location u) (location a),
        meetingLink := orKeep (upd_meetingLink u) (meetingLink a),
        notes' := orKeep (upd_notes u) (notes' a),
        goals := orKeep (upd_goals u) (goals a),
        materials := orElse (upd_materials u) (materials a),
        homework := orKeep (upd_homework u) (homework a),
        cancellationReason := orKeep (upd_cancellationReason u) (cancellationReason a),
        cancelledAt := (if upd_status u = Some CANCELLED then Some now else cancelledAt a) \<rparr>"

definition update_appointment ::
  "db \<Rightarrow> user \<Rightarrow> ident \<Rightarrow> updateAppointment \<Rightarrow> time \<Rightarrow> (error + appointment) \<times> db" where
  "update_appointment d currentUser i u now =
     (case findAppointment d i of
        None \<Rightarrow> (Inl AppointmentNotFound, d)
      | Some a \<Rightarrow>
          (case hasPermission d currentUser a of
             Inl e \<Rightarrow> (Inl e, d)
           | Inr canUpdate \<Rightarrow>
               if \<not> canUpdate then (Inl AccessDenied, d)
               else
                 (case upd_status u of
                    Some s \<Rightarrow>
                      if s \<notin> set (validTransitions (status a))
                        then (Inl (IllegalStatusTransition (status a) s), d)
                      else (Inr (updateData u now a), updateRow d i (updateData u now))
                  | None \<Rightarrow> (Inr (updateData u now a), updateRow d i (updateData u now)))))"

subsection \<open>Cancel appointment\<close>

definition cancelData :: "reason \<Rightarrow> time \<Rightarrow> appointment \<Rightarrow> appointment" where
  "cancelData r now a =
     a\<lparr> status := CANCELLED,
        cancelledAt := Some now,
        cancellationReason :=
          (case r of Absent \<Rightarrow> cancellationReason a | Null \<Rightarrow> None | Text s \<Rightarrow> Some s) \<rparr>"

definition cancel_appointment ::
  "db \<Rightarrow> user \<Rightarrow> ident \<Rightarrow> reason \<Rightarrow> time \<Rightarrow> (error + appointment) \<times> db" where
  "cancel_appointment d currentUser i r now =
     (case findAppointment d i of
        None \<Rightarrow> (Inl AppointmentNotFound, d)
      | Some a \<Rightarrow>
          (case hasPermission d currentUser a of
             Inl e \<Rightarrow> (Inl e, d)
           | Inr canCancel \<Rightarrow>
               if \<not> canCancel then (Inl AccessDenied, d)
               else if status a \<in> set [COMPLETED, CANCELLED, NO_SHOW]
                 then (Inl CannotBeCancelled, d)
               else (Inr (cancelData r now a), updateRow d i (cancelData r now))))"

subsection \<open>Predicates of the specification\<close>

text \<open>
  The overlap of the half-open intervals \<open>[a, b)\<close> and \<open>[c, d)\<close>, in the words of the
  specification: \<open>a < d AND c < b\<close>.
\<close>

definition overlaps :: "time \<Rightarrow> time \<Rightarrow> time \<Rightarrow> time \<Rightarrow> bool" where
  "overlaps a b c d \<longleftrightarrow> a < d \<and> c < b"

text \<open>A non-terminal status.\<close>

definition active :: "appointment \<Rightarrow> bool" where
  "active a \<longleftrightarrow> status a \<in> set [SCHEDULED, CONFIRMED, IN_PROGRESS]"

text \<open>
  Two rows of one provider, both non-terminal, with overlapping intervals; a table is
  double booked when it holds two such rows.
\<close>

definition clash :: "appointment \<Rightarrow> appointment \<Rightarrow> bool" where
  "clash a b \<longleftrightarrow>
     providerId a = providerId b \<and> active a \<and> active b \<and>
     overlaps (startTime a) (endTime a) (startTime b) (endTime b)"

fun doubleBooked :: "appointment list \<Rightarrow> bool" where
  "doubleBooked [] = False"
| "doubleBooked (a # as) = (list_ex (clash a) as \<or> doubleBooked as)"

text \<open>
  The transition table of the specification, as pairs \<open>(from, to)\<close>; the terminal states
  have no row.
\<close>

definition specTransitions :: "(status \<times> status) list" where
  "specTransitions =
     [(SCHEDULED, CONFIRMED), (SCHEDULED, CANCELLED),
      (CONFIRMED, IN_PROGRESS), (CONFIRMED, CANCELLED),
      (IN_PROGRESS, COMPLETED), (IN_PROGRESS, CANCELLED)]"

text \<open>An amount that is a whole number of cents.\<close>

definition wholeCents :: "number \<Rightarrow> bool" where
  "wholeCents n = (case n of Num x \<Rightarrow> of_int \<lfloor>100 * x\<rfloor> = 100 * x | _ \<Rightarrow> False)"

subsection \<open>Scenario data\<close>

text \<open>
  A verified provider \<open>p1\<close> with a given rate, a client \<open>u1\<close>, and requests of that client
  for that provider. \<open>t0\<close> is the instant of the requests; slots are given relative to it.
\<close>

definition t0 :: time where
  "t0 = 1800000000000"

text \<open>A server in UTC.\<close>

definition utcZone :: zone where
  "utcZone = \<lparr> localTime = (\<lambda>t. t), utcTime = (\<lambda>t. t) \<rparr>"


definition minute :: int where
  "minute = 60000"

definition hour :: int where
  "hour = 3600000"

definition providerWith :: "number option \<Rightarrow> provider" where
  "providerWith rate =
     \<lparr> p_id = ''p1'', p_userId = ''u2'', p_hourlyRate = rate,
       licenseVerified = True, backgroundCheck = True \<rparr>"

definition client1 :: user where
  "client1 = \<lparr> u_id = ''u1'', u_role = FAMILY \<rparr>"

definition request :: "time \<Rightarrow> time \<Rightarrow> createAppointment" where
  "request s e =
     \<lparr> req_providerId = ''p1'', req_serviceType = SPEECH_THERAPY, req_title = ''Session'',
       req_description = None, req_startTime = s, req_endTime = e, req_isRemote = None,
       req_location = None, req_notes = None, req_goals = None, req_materials = None \<rparr>"

text \<open>The row that a successful \<open>request s e\<close> stores under the identifier \<open>i\<close>.\<close>

definition booked :: "number option \<Rightarrow> ident \<Rightarrow> time \<Rightarrow> time \<Rightarrow> appointment" where
  "booked rate i s e = newAppointment client1 (providerWith rate) (request s e) i"

definition dbWith :: "number option \<Rightarrow> appointment list \<Rightarrow> db" where
  "dbWith rate as = \<lparr> providerProfiles = [providerWith rate], appointments = as \<rparr>"

text \<open>An update body without any key.\<close>

definition noChange :: updateAppointment where
  "noChange =
     \<lparr> upd_title = None, upd_description = None, upd_startTime = None, upd_endTime = None,
       upd_status = None, upd_isRemote = None, upd_location = None, upd_meetingLink = None,
       upd_notes = None, upd_goals = None, upd_materials = None, upd_homework = None,
       upd_cancellationReason = None \<rparr>"

text \<open>Ten to twelve o'clock, and the half hours inside it.\<close>

definition longSlot :: appointment where
  "longSlot = booked (Some (Num 120)) ''a1'' (t0 + 10 * hour) (t0 + 12 * hour)"

definition insideRequest :: createAppointment where
  "insideRequest = request (t0 + 10 * hour + 30 * minute) (t0 + 11 * hour + 30 * minute)"

definition insideSlot :: appointment where
  "insideSlot = booked (Some (Num 120)) ''a2'' (t0 + 10 * hour + 30 * minute) (t0 + 11 * hour + 30 * minute)"

text \<open>Two back-to-back hours, ten to eleven and eleven to twelve.\<close>

definition firstHour :: appointment where
  "firstHour = booked (Some (Num 120)) ''a1'' (t0 + 10 * hour) (t0 + 11 * hour)"

definition secondHour :: appointment where
  "secondHour = booked (Some (Num 120)) ''a2'' (t0 + 11 * hour) (t0 + 12 * hour)"

definition secondHourRequest :: createAppointment where
  "secondHourRequest = request (t0 + 11 * hour) (t0 + 12 * hour)"

definition moveEarlier :: updateAppointment where
  "moveEarlier = noChange\<lparr>upd_startTime := Some (t0 + 10 * hour + 30 * minute)\<rparr>"

definition extendToNoon :: updateAppointment where
  "extendToNoon = noChange\<lparr>upd_endTime := Some (t0 + 12 * hour)\<rparr>"

text \<open>A request whose end is an hour before its start, and the row it stores.\<close>

definition invertedRequest :: createAppointment where
  "invertedRequest = request (t0 + 11 * hour) (t0 + 10 * hour)"

definition invertedSlot :: appointment where
  "invertedSlot = booked (Some (Num 120)) ''a1'' (t0 + 11 * hour) (t0 + 10 * hour)"

text \<open>A request of length zero, at 11:00, and the row it stores.\<close>

definition emptyRequest :: createAppointment where
  "emptyRequest = request (t0 + 11 * hour) (t0 + 11 * hour)"

definition emptySlot :: appointment where
  "emptySlot = booked (Some (Num 120)) ''a1'' (t0 + 11 * hour) (t0 + 11 * hour)"

text \<open>A quarter of an hour at the rate 100.50: both are exact as doubles, and so is 25.125.\<close>

definition quarterRequest :: createAppointment where
  "quarterRequest = request (t0 + 10 * hour) (t0 + 10 * hour + 15 * minute)"

definition quarterSlot :: appointment where
  "quarterSlot = booked (Some (Num (201 / 2))) ''a1'' (t0 + 10 * hour) (t0 + 10 * hour + 15 * minute)"

definition firstHourRequest :: createAppointment where
  "firstHourRequest = request (t0 + 10 * hour) (t0 + 11 * hour)"

text \<open>The first hour as stored for a provider without rate.\<close>

definition unpricedHour :: appointment where
  "unpricedHour = booked None ''a1'' (t0 + 10 * hour) (t0 + 11 * hour)"

definition confirmIt :: updateAppointment where
  "confirmIt = noChange\<lparr>upd_status := Some CONFIRMED\<rparr>"

definition completeIt :: updateAppointment where
  "completeIt = noChange\<lparr>upd_status := Some COMPLETED\<rparr>"

definition cancelIt :: updateAppointment where
  "cancelIt = noChange\<lparr>upd_status := Some CANCELLED, upd_cancellationReason := Some ''ill''\<rparr>"

text \<open>The first hour after its cancellation at \<open>t0\<close> with the reason \<open>ill\<close>.\<close>

definition cancelledHour :: appointment where
  "cancelledHour =
     firstHour\<lparr>status := CANCELLED, cancelledAt := Some t0, cancellationReason := Some ''ill''\<rparr>"




lemmas model_defs =
  create_appointment_def newAppointment_def findProvider_def findAppointment_def
  conflictWhere_def isBefore_def isAfter_def addDays_def roundMinutes_def updateRow_def
  update_appointment_def updateData_def hasPermission_def orElse_def orKeep_def
  cancel_appointment_def cancelData_def orZero_def Let_def

lemmas scenario_defs =
  t0_def hour_def minute_def providerWith_def client1_def request_def booked_def dbWith_def
  noChange_def firstHour_def firstHourRequest_def utcZone_def

lemmas spec_defs = overlaps_def active_def clash_def

section \<open>Properties\<close>

subsection \<open>Auxiliary facts\<close>

declare bitLength.simps [simp del]

lemma toDouble_zero [simp]: "toDouble 0 = Num 0"
  by (simp add: toDouble_def)

text \<open>
  Rounding leaves a double as it is: a value \<open>m * 2^e\<close> with fewer than 54 binary digits
  in \<open>m\<close>, \<open>e\<close> not below the subnormal exponent and a magnitude below \<open>2^1024\<close>. So the
  product and the quotient of the handler are exact whenever the exact results are doubles.
\<close>

lemma bitLength_bounds:
  "0 < n \<Longrightarrow> 2 ^ (bitLength n - 1) \<le> n \<and> n < 2 ^ bitLength n"
proof (induction n rule: bitLength.induct)
  case (1 n)
  show ?case
  proof (cases "n = 1")
    case True
    then show ?thesis by (simp add: bitLength.simps [of 1] bitLength.simps [of 0])
  next
    case False
    with "1.prems" have h: "0 < n div 2" by simp
    with "1.IH" "1.prems" have ih: "2 ^ (bitLength (n div 2) - 1) \<le> n div 2"
      "n div 2 < 2 ^ bitLength (n div 2)" by simp_all
    from h have pos: "0 < bitLength (n div 2)"
      by (simp add: bitLength.simps [of "n div 2"])
    have b: "bitLength n = Suc (bitLength (n div 2))"
      using "1.prems" by (simp add: bitLength.simps [of n])
    have "2 ^ (bitLength n - 1) = 2 * (2::int) ^ (bitLength (n div 2) - 1)"
      using pos b by (cases "bitLength (n div 2)") simp_all
    also have "\<dots> \<le> 2 * (n div 2)" using ih(1) by simp
    also have "\<dots> \<le> n" by simp
    finally have lo: "2 ^ (bitLength n - 1) \<le> n" .
    have "n < 2 * (n div 2) + 2" by presburger
    also have "\<dots> \<le> 2 * 2 ^ bitLength (n div 2)" using ih(2) by simp
    finally have "n < 2 ^ bitLength n" using b by simp
    with lo show ?thesis by simp
  qed
qed

lemma ilog2_lower:
  assumes "0 < a"
  shows "2 powi (ilog2 a) \<le> a"
proof (cases "1 \<le> a")
  case True
  then have n: "0 < \<lfloor>a\<rfloor>" by simp
  from bitLength_bounds [OF n] have "(2::int) ^ (bitLength \<lfloor>a\<rfloor> - 1) \<le> \<lfloor>a\<rfloor>" by simp
  then have "of_int ((2::int) ^ (bitLength \<lfloor>a\<rfloor> - 1)) \<le> (of_int \<lfloor>a\<rfloor> :: rat)"
    by (simp only: of_int_le_iff)
  also have "\<dots> \<le> a" by simp
  finally have "(2::rat) ^ (bitLength \<lfloor>a\<rfloor> - 1) \<le> a" by simp
  moreover from n have "0 < bitLength \<lfloor>a\<rfloor>" by (simp add: bitLength.simps [of "\<lfloor>a\<rfloor>"])
  then have "ilog2 a = int (bitLength \<lfloor>a\<rfloor> - 1)"
    using True by (simp add: ilog2_def of_nat_diff)
  ultimately show ?thesis by simp
next
  case False
  with assms have y: "1 < 1 / a" by simp
  let ?m = "\<lceil>1 / a\<rceil> - 1"
  let ?b = "bitLength ?m"
  from y have m: "0 < ?m" by (simp add: less_ceiling_iff)
  from bitLength_bounds [OF m] have "?m < 2 ^ ?b" by simp
  then have "\<lceil>1 / a\<rceil> \<le> 2 ^ ?b" by simp
  then have "1 / a \<le> of_int (2 ^ ?b)" by (simp only: ceiling_le_iff)
  then have "1 / a \<le> 2 ^ ?b" by simp
  with assms have "1 / 2 ^ ?b \<le> a"
    by (simp add: field_simps)
  moreover have "ilog2 a = - int ?b" using False by (simp add: ilog2_def)
  ultimately show ?thesis
    by (simp add: power_int_minus_divide)
qed

lemma ilog2_upper:
  assumes "0 < a"
  shows "a < 2 powi (ilog2 a + 1)"
proof (cases "1 \<le> a")
  case True
  then have n: "0 < \<lfloor>a\<rfloor>" by simp
  from bitLength_bounds [OF n] have "\<lfloor>a\<rfloor> + 1 \<le> 2 ^ bitLength \<lfloor>a\<rfloor>" by simp
  then have "(of_int (\<lfloor>a\<rfloor> + 1) :: rat) \<le> of_int (2 ^ bitLength \<lfloor>a\<rfloor>)"
    by (simp only: of_int_le_iff)
  moreover have "a < of_int (\<lfloor>a\<rfloor> + 1)" by linarith
  ultimately have "a < 2 ^ bitLength \<lfloor>a\<rfloor>" by simp
  moreover have "ilog2 a + 1 = int (bitLength \<lfloor>a\<rfloor>)"
    using True by (simp add: ilog2_def)
  ultimately show ?thesis by simp
next
  case False
  with assms have y: "1 < 1 / a" by simp
  let ?m = "\<lceil>1 / a\<rceil> - 1"
  let ?b = "bitLength ?m"
  from y have m: "0 < ?m" by (simp add: less_ceiling_iff)
  then have pos: "0 < ?b" by (simp add: bitLength.simps [of ?m])
  from bitLength_bounds [OF m] have "(2::int) ^ (?b - 1) \<le> ?m" by simp
  then have "(of_int (2 ^ (?b - 1)) :: rat) \<le> of_int ?m" by (simp only: of_int_le_iff)
  moreover have "of_int ?m < 1 / a" by linarith
  ultimately have "2 ^ (?b - 1) < 1 / a" by simp
  with assms have "a < 1 / 2 ^ (?b - 1)"
    by (simp add: field_simps)
  moreover have "ilog2 a + 1 = - int (?b - 1)"
    using False pos by (simp add: ilog2_def of_nat_diff)
  ultimately show ?thesis
    by (simp only: power_int_minus_divide power_int_of_nat)
qed

lemma roundHalfEven_of_int [simp]: "roundHalfEven (of_int k) = k"
  by (simp add: roundHalfEven_def)

lemma toDouble_exact:
  assumes x: "x = of_int m * 2 powi e"
    and m: "\<bar>m\<bar> < 2 ^ 53"
    and e: "- 1074 \<le> e"
    and fin: "\<bar>x\<bar> < 2 powi 1024"
  shows "toDouble x = Num x"
proof (cases "x = 0")
  case True
  then show ?thesis by (simp add: toDouble_def)
next
  case False
  let ?a = "\<bar>x\<bar>"
  let ?e = "max (ilog2 ?a - 52) (- 1074)"
  have a: "?a = of_int \<bar>m\<bar> * 2 powi e"
    using x by (simp add: abs_mult)
  from False have pos: "0 < ?a" by simp
  have "2 powi (ilog2 ?a) \<le> ?a" using pos by (rule ilog2_lower)
  also have "?a < 2 ^ 53 * 2 powi e"
  proof -
    have "(of_int \<bar>m\<bar> :: rat) < of_int (2 ^ 53)" using m by (simp only: of_int_less_iff)
    then show ?thesis unfolding a by (simp add: zero_less_power_int)
  qed
  also have "\<dots> = 2 powi (e + 53)"
    by (simp add: power_int_add)
  finally have lt: "2 powi (ilog2 ?a) < (2::rat) powi (e + 53)" .
  have "ilog2 ?a < e + 53"
  proof (rule ccontr)
    assume "\<not> ilog2 ?a < e + 53"
    then have "e + 53 \<le> ilog2 ?a" by simp
    then have "(2::rat) powi (e + 53) \<le> 2 powi (ilog2 ?a)"
      by (intro power_int_increasing) simp_all
    with lt show False by simp
  qed
  define E where "E = max (ilog2 ?a - 52) (- 1074)"
  with e \<open>ilog2 ?a < e + 53\<close> have "E \<le> e" by simp
  then obtain k where "e = E + int k"
    by (metis zle_iff_zadd)
  then have pw: "(2::rat) powi e = 2 powi E * 2 ^ k"
    by (simp add: power_int_add)
  have nz: "(2::rat) powi E \<noteq> 0" by simp
  have q: "?a / 2 powi E = of_int (\<bar>m\<bar> * 2 ^ k)"
    using nz by (simp add: a pw)
  have r: "of_int (roundHalfEven (?a / 2 powi E)) * 2 powi E = ?a"
    unfolding q roundHalfEven_of_int by (simp add: a pw)
  have "toDouble x =
          (if 2 powi 1024 \<le> ?a then (if 0 < x then PosInfinity else NegInfinity)
           else Num (if x < 0 then - ?a else ?a))"
    unfolding toDouble_def Let_def E_def [symmetric] r using False by (simp only: if_False)
  with fin show ?thesis by (simp add: abs_if)
qed

lemma toDouble_7200: "toDouble 7200 = Num 7200"
  by (rule toDouble_exact [of _ 7200 0]) simp_all

lemma toDouble_120: "toDouble 120 = Num 120"
  by (rule toDouble_exact [of _ 120 0]) simp_all

lemma toDouble_1507_5: "toDouble (3015 / 2) = Num (3015 / 2)"
  by (rule toDouble_exact [of _ 3015 "- 1"]) (simp_all add: power_int_minus_divide)

lemma toDouble_25_125: "toDouble (201 / 8) = Num (201 / 8)"
  by (rule toDouble_exact [of _ 201 "- 3"]) (simp_all add: power_int_minus_divide)

text \<open>
  A quotient that is no double is rounded: at the rate 100, 50 minutes give 5000 / 60,
  stored as 83.33333333333333, the double next to 250 / 3.
\<close>

lemma toDouble_250_3: "toDouble (250 / 3) = Num (5864062014805333 / 70368744177664)"
  by code_simp

lemma rounded_total:
  "divide_number (times_number (Num 100) (Num 50)) (Num 60)
   = Num (5864062014805333 / 70368744177664)"
proof -
  have "toDouble 5000 = Num 5000"
    by (rule toDouble_exact [of _ 5000 0]) simp_all
  then show ?thesis by (simp add: toDouble_250_3)
qed


lemma create_success:
  assumes "findProvider d (req_providerId r) = Some prov"
    and "licenseVerified prov" and "backgroundCheck prov"
    and "now1 \<le> req_startTime r" and "req_startTime r \<le> addDays z now2 90"
    and "find (conflictWhere (req_providerId r) (req_startTime r) (req_endTime r))
           (appointments d) = None"
  shows "create_appointment z d cu r now1 now2 i =
           (Inr (newAppointment cu prov r i),
            d\<lparr>appointments := appointments d @ [newAppointment cu prov r i]\<rparr>)"
  using assms by (simp add: create_appointment_def isBefore_def isAfter_def Let_def)

lemma create_duration_derived:
  assumes "fst (create_appointment z d cu r now1 now2 i) = Inr a"
  shows "duration a = roundMinutes (endTime a - startTime a)"
  using assms
  by (auto simp: create_appointment_def newAppointment_def Let_def
           split: option.splits if_splits)

lemma find_updateRow:
  assumes "\<And>x. id' (f x) = id' x"
  shows "findAppointment (updateRow d i f) j =
           (if j = i then map_option f (findAppointment d j) else findAppointment d j)"
proof -
  have "find (\<lambda>a. id' a = j) (map (\<lambda>a. if id' a = i then f a else a) xs)
      = (if j = i then map_option f (find (\<lambda>a. id' a = j) xs)
         else find (\<lambda>a. id' a = j) xs)" for xs
    by (induction xs) (auto simp: assms)
  then show ?thesis by (simp add: findAppointment_def updateRow_def)
qed

lemma id_updateData [simp]: "id' (updateData u now a) = id' a"
  by (simp add: updateData_def)

lemma id_cancelData [simp]: "id' (cancelData r now a) = id' a"
  by (simp add: cancelData_def)

lemma not_wholeCents:
  assumes "of_int k < 100 * x" and "100 * x < of_int (k + 1)"
  shows "\<not> wholeCents (Num x)"
proof -
  have "\<lfloor>100 * x\<rfloor> = k"
    using assms by (simp add: floor_eq_iff less_imp_le)
  with assms(1) show ?thesis by (simp add: wholeCents_def)
qed

text \<open>
  The two hours of the back-to-back scenario are what two successive bookings store.
\<close>

lemma two_hours_booked:
  "snd (create_appointment utcZone
          (snd (create_appointment utcZone (dbWith (Some (Num 120)) []) client1 firstHourRequest t0 t0 ''a1''))
          client1 secondHourRequest t0 t0 ''a2'')
   = dbWith (Some (Num 120)) [firstHour, secondHour]"
  by (simp add: model_defs scenario_defs secondHour_def secondHourRequest_def)

text \<open>The appointment from 10:00 to 12:00 is what a booking of an empty calendar stores.\<close>

lemma long_slot_booked:
  "create_appointment utcZone (dbWith (Some (Num 120)) []) client1
     (request (t0 + 10 * hour) (t0 + 12 * hour)) t0 t0 ''a1''
   = (Inr longSlot, dbWith (Some (Num 120)) [longSlot])"
  by (simp add: model_defs scenario_defs longSlot_def)

subsection \<open>Conflict detection\<close>

text \<open>
  For two proper intervals the conflict query matches a non-terminal row of the provider
  exactly when the intervals overlap and the row does not strictly enclose the request:
  the query tests whether the row starts or ends inside the requested interval, and a row
  that starts before it and ends after it does neither.
\<close>

lemma conflictWhere_iff:
  assumes "startT < endT" and "startTime a < endTime a"
    and "providerId a = pid" and "active a"
  shows "conflictWhere pid startT endT a \<longleftrightarrow>
           overlaps startT endT (startTime a) (endTime a)
           \<and> \<not> (startTime a < startT \<and> endT < endTime a)"
  using assms by (auto simp: conflictWhere_def overlaps_def active_def)

text \<open>
  Claim C1 (conflict reported if and only if the intervals overlap, an enclosing
  appointment included) does not hold of the code. The provider has a scheduled appointment
  from 10:00 to 12:00; a request for 10:30 to 11:30 of the same day overlaps it and is
  strictly inside it, no conflict is reported, and the request is stored next to it.
\<close>

theorem create_accepts_enclosed_request:
  "status longSlot = SCHEDULED
   \<and> providerId longSlot = req_providerId insideRequest
   \<and> startTime longSlot < req_startTime insideRequest
   \<and> req_endTime insideRequest < endTime longSlot
   \<and> overlaps (req_startTime insideRequest) (req_endTime insideRequest)
        (startTime longSlot) (endTime longSlot)
   \<and> create_appointment utcZone (dbWith (Some (Num 120)) [longSlot]) client1 insideRequest t0 t0 ''a2''
       = (Inr insideSlot, dbWith (Some (Num 120)) [longSlot, insideSlot])"
  by (simp add: model_defs scenario_defs spec_defs longSlot_def insideRequest_def
        insideSlot_def)

text \<open>C1, read off the result: the response is the stored row, not a conflict.\<close>

theorem create_accepts_enclosed_request_witness:
  "fst (create_appointment utcZone (dbWith (Some (Num 120)) [longSlot]) client1 insideRequest t0 t0 ''a2'')
   = Inr insideSlot"
  using create_accepts_enclosed_request by simp

subsection \<open>No double booking\<close>

text \<open>Cancelling keeps a table free of double bookings.\<close>

lemma doubleBooked_map:
  assumes "\<And>a b. clash (f a) (f b) \<Longrightarrow> clash a b"
    and "doubleBooked (map f xs)"
  shows "doubleBooked xs"
  using assms(2)
proof (induction xs)
  case Nil
  then show ?case by simp
next
  case (Cons x xs)
  then show ?case
    by (auto simp: list_ex_iff dest: assms(1))
qed

lemma cancel_keeps_invariant:
  assumes "\<not> doubleBooked (appointments d)"
  shows "\<not> doubleBooked (appointments (snd (cancel_appointment d cu i r now)))"
proof -
  let ?f = "\<lambda>a. if id' a = i then cancelData r now a else a"
  have "clash a b" if "clash (?f a) (?f b)" for a b
    using that by (auto simp: clash_def active_def cancelData_def split: if_splits)
  then have "\<not> doubleBooked (map ?f (appointments d))"
    using assms doubleBooked_map [of ?f "appointments d"] by blast
  then show ?thesis
    using assms
    by (auto simp: cancel_appointment_def updateRow_def split: option.splits sum.splits)
qed

text \<open>
  Claim C2 (no operation lets two non-terminal appointments of one provider overlap) does
  not hold of the code. Update: the provider is booked 10:00 to 11:00 and 11:00 to 12:00,
  which is no double booking; moving the start of the second appointment to 10:30 is accepted
  without any conflict query and the two rows then overlap. Create: the request enclosed in
  the appointment from 10:00 to 12:00 is stored although it overlaps it.
\<close>

theorem update_introduces_double_booking:
  "\<not> doubleBooked [firstHour, secondHour]
   \<and> update_appointment (dbWith (Some (Num 120)) [firstHour, secondHour]) client1 ''a2'' moveEarlier t0
       = (Inr (secondHour\<lparr>startTime := t0 + 10 * hour + 30 * minute\<rparr>),
          dbWith (Some (Num 120))
            [firstHour, secondHour\<lparr>startTime := t0 + 10 * hour + 30 * minute\<rparr>])
   \<and> doubleBooked [firstHour, secondHour\<lparr>startTime := t0 + 10 * hour + 30 * minute\<rparr>]
   \<and> \<not> doubleBooked [longSlot]
   \<and> doubleBooked (appointments
        (snd (create_appointment utcZone (dbWith (Some (Num 120)) [longSlot]) client1 insideRequest
                t0 t0 ''a2'')))"
  by (simp add: model_defs scenario_defs spec_defs secondHour_def moveEarlier_def
        longSlot_def insideRequest_def)

text \<open>C2, read off the result: the table after the update is double booked.\<close>

theorem update_introduces_double_booking_witness:
  "doubleBooked (appointments
     (snd (update_appointment (dbWith (Some (Num 120)) [firstHour, secondHour]) client1 ''a2''
             moveEarlier t0)))"
  using update_introduces_double_booking by (simp add: dbWith_def)

subsection \<open>Stored duration\<close>

text \<open>
  Claim C5 (the stored duration is the length of the interval after every operation) does
  not hold of the code. Creation stores the rounded number of minutes (lemma
  \<open>create_duration_derived\<close>), but an update writes the new end without touching
  \<open>duration\<close>: the appointment from 10:00 to 11:00, extended to 12:00, is 120 minutes
  long and keeps the duration 60.
\<close>

theorem update_leaves_duration_stale:
  "duration firstHour = roundMinutes (endTime firstHour - startTime firstHour)
   \<and> update_appointment (dbWith (Some (Num 120)) [firstHour]) client1 ''a1'' extendToNoon t0
       = (Inr (firstHour\<lparr>endTime := t0 + 12 * hour\<rparr>),
          dbWith (Some (Num 120)) [firstHour\<lparr>endTime := t0 + 12 * hour\<rparr>])
   \<and> duration (firstHour\<lparr>endTime := t0 + 12 * hour\<rparr>) = 60
   \<and> roundMinutes (endTime (firstHour\<lparr>endTime := t0 + 12 * hour\<rparr>)
                    - startTime (firstHour\<lparr>endTime := t0 + 12 * hour\<rparr>)) = 120"
  by (simp add: model_defs scenario_defs extendToNoon_def)

text \<open>C5, read off the result: the stored duration is not the length of the interval.\<close>

theorem update_leaves_duration_stale_witness:
  "fst (update_appointment (dbWith (Some (Num 120)) [firstHour]) client1 ''a1'' extendToNoon t0)
     = Inr (firstHour\<lparr>endTime := t0 + 12 * hour\<rparr>)
   \<and> duration (firstHour\<lparr>endTime := t0 + 12 * hour\<rparr>)
       \<noteq> roundMinutes (endTime (firstHour\<lparr>endTime := t0 + 12 * hour\<rparr>)
                        - startTime (firstHour\<lparr>endTime := t0 + 12 * hour\<rparr>))"
  using update_leaves_duration_stale by simp

subsection \<open>Interval validation\<close>

text \<open>
  Claim C3, as amended: creation does not compare \<open>endTime\<close> with \<open>startTime\<close> and has no
  error for an invalid interval. A request whose end is not after its start, for a verified
  provider, with a start inside the booking window and no row matching the conflict query,
  is stored as it is, with a duration of zero or fewer minutes.
\<close>

theorem create_does_not_check_interval:
  assumes "findProvider d (req_providerId r) = Some prov"
    and "licenseVerified prov" and "backgroundCheck prov"
    and "now1 \<le> req_startTime r" and "req_startTime r \<le> addDays z now2 90"
    and "find (conflictWhere (req_providerId r) (req_startTime r) (req_endTime r))
           (appointments d) = None"
    and "req_endTime r \<le> req_startTime r"
  shows "\<exists>a. create_appointment z d cu r now1 now2 i
               = (Inr a, d\<lparr>appointments := appointments d @ [a]\<rparr>)
           \<and> startTime a = req_startTime r \<and> endTime a = req_endTime r
           \<and> duration a \<le> 0"
proof -
  let ?a = "newAppointment cu prov r i"
  from assms(1-6)
  have "create_appointment z d cu r now1 now2 i
          = (Inr ?a, d\<lparr>appointments := appointments d @ [?a]\<rparr>)"
    by (intro create_success)
  moreover have "startTime ?a = req_startTime r" and "endTime ?a = req_endTime r"
    by (simp_all add: newAppointment_def Let_def)
  moreover have "duration ?a \<le> 0"
    using assms(7) by (simp add: newAppointment_def Let_def roundMinutes_def)
  ultimately show ?thesis by blast
qed

text \<open>C3 as amended, at a request of length zero for an empty calendar.\<close>

theorem create_does_not_check_interval_witness:
  "req_endTime emptyRequest \<le> req_startTime emptyRequest
   \<and> (\<exists>a. create_appointment utcZone (dbWith (Some (Num 120)) []) client1 emptyRequest t0 t0 ''a1''
             = (Inr a, (dbWith (Some (Num 120)) [])
                  \<lparr>appointments := appointments (dbWith (Some (Num 120)) []) @ [a]\<rparr>)
          \<and> startTime a = req_startTime emptyRequest
          \<and> endTime a = req_endTime emptyRequest
          \<and> duration a \<le> 0)"
  using create_does_not_check_interval
    [of "dbWith (Some (Num 120)) []" emptyRequest "providerWith (Some (Num 120))" t0 utcZone t0
        client1 "''a1''"]
  by (simp add: findProvider_def addDays_def scenario_defs emptyRequest_def)

text \<open>
  Claim C3 as stated fails: the request from 11:00 back to 10:00 is not rejected, it is
  stored with the duration \<open>-60\<close>.
\<close>

theorem create_accepts_inverted_interval:
  "req_endTime invertedRequest \<le> req_startTime invertedRequest
   \<and> create_appointment utcZone (dbWith (Some (Num 120)) []) client1 invertedRequest t0 t0 ''a1''
       = (Inr invertedSlot, dbWith (Some (Num 120)) [invertedSlot])
   \<and> duration invertedSlot = - 60"
  by (simp add: model_defs scenario_defs invertedRequest_def invertedSlot_def)

subsection \<open>Fee\<close>

text \<open>
  Claim C4, as amended: the stored \<open>totalAmount\<close> of a created appointment is the result
  of \<open>(hourlyRate * duration) / 60\<close> in the arithmetic of doubles, the product and then
  the quotient each rounded to the nearest double and to nothing else, where \<open>duration\<close>
  is the length of the interval rounded to minutes. Nothing rounds the amount to cents:
  when the exact product and the exact quotient are doubles, the stored amount is the
  exact quotient.
\<close>

theorem create_total_is_unrounded_quotient:
  assumes "fst (create_appointment z d cu r now1 now2 i) = Inr a"
  shows "totalAmount a
           = divide_number (times_number (hourlyRate a) (Num (of_int (duration a)))) (Num 60)
       \<and> duration a = roundMinutes (req_endTime r - req_startTime r)
       \<and> (hourlyRate a = Num rate
            \<and> toDouble (rate * of_int (duration a)) = Num (rate * of_int (duration a))
            \<and> toDouble (rate * of_int (duration a) / 60)
                = Num (rate * of_int (duration a) / 60)
          \<longrightarrow> totalAmount a = Num (rate * of_int (duration a) / 60))"
proof -
  from assms obtain prov where a: "a = newAppointment cu prov r i"
    by (auto simp: create_appointment_def Let_def split: option.splits if_splits)
  have t: "totalAmount a
             = divide_number (times_number (hourlyRate a) (Num (of_int (duration a)))) (Num 60)"
    and "duration a = roundMinutes (req_endTime r - req_startTime r)"
    unfolding a by (simp_all add: newAppointment_def Let_def)
  moreover have "totalAmount a = Num (rate * of_int (duration a) / 60)"
    if "hourlyRate a = Num rate"
      and "toDouble (rate * of_int (duration a)) = Num (rate * of_int (duration a))"
      and "toDouble (rate * of_int (duration a) / 60) = Num (rate * of_int (duration a) / 60)"
    using that by (simp add: t)
  ultimately show ?thesis by blast
qed

text \<open>
  C4 as amended, at the hour booked at the rate 120: product 7200 and quotient 120 are
  doubles, and the amount is 120.
\<close>

theorem create_total_is_unrounded_quotient_witness:
  "fst (create_appointment utcZone (dbWith (Some (Num 120)) []) client1 firstHourRequest t0 t0 ''a1'')
     = Inr firstHour
   \<and> totalAmount firstHour
       = divide_number (times_number (hourlyRate firstHour) (Num (of_int (duration firstHour))))
           (Num 60)
   \<and> duration firstHour
       = roundMinutes (req_endTime firstHourRequest - req_startTime firstHourRequest)
   \<and> hourlyRate firstHour = Num 120 \<and> duration firstHour = 60
   \<and> totalAmount firstHour = Num 120"
proof -
  have c: "fst (create_appointment utcZone (dbWith (Some (Num 120)) []) client1 firstHourRequest t0 t0 ''a1'')
             = Inr firstHour"
    by (simp add: model_defs scenario_defs)
  have h: "hourlyRate firstHour = Num 120" and d: "duration firstHour = 60"
    by (simp_all add: newAppointment_def roundMinutes_def orZero_def Let_def scenario_defs)
  from create_total_is_unrounded_quotient [OF c, of 120] c h d show ?thesis
    by (simp add: toDouble_7200 toDouble_120)
qed

text \<open>
  Claim C4 as stated fails: a quarter of an hour at the rate 100.50 is stored with the
  amount 25.125, which is 2512.5 cents. The rate, the product 1507.5 and the quotient are
  doubles, so the arithmetic of the handler is exact here.
\<close>

theorem create_total_has_fractional_cents:
  "fst (create_appointment utcZone (dbWith (Some (Num (201 / 2))) []) client1 quarterRequest t0 t0 ''a1'')
     = Inr quarterSlot
   \<and> totalAmount quarterSlot = Num (201 / 8)
   \<and> \<not> wholeCents (totalAmount quarterSlot)"
proof -
  have "\<not> wholeCents (Num (201 / 8))"
    by (rule not_wholeCents [of 2512]) simp_all
  then show ?thesis
    by (simp add: model_defs scenario_defs quarterRequest_def quarterSlot_def
          toDouble_1507_5 toDouble_25_125)
qed

subsection \<open>Status transitions\<close>

text \<open>The table of the update handler is the table of the specification.\<close>

lemma validTransitions_table:
  "to \<in> set (validTransitions from) \<longleftrightarrow> (from, to) \<in> set specTransitions"
  by (cases "from") (auto simp: specTransitions_def)

lemma terminal_has_no_transition:
  "from \<in> {COMPLETED, CANCELLED, NO_SHOW} \<Longrightarrow> (from, to) \<notin> set specTransitions"
  by (auto simp: specTransitions_def)

text \<open>
  Claim C6: for a stored appointment and a caller who may update it (an admin, the client
  or the provider's user), an update that requests the status \<open>to\<close> succeeds with the
  status \<open>to\<close> stored when \<open>(from, to)\<close> is in the table, and otherwise fails with the error
  naming the current and the requested status, leaving the database as it was, so that
  the same request fails again. A terminal status has no pair in the table, itself
  included.
\<close>

theorem update_status_follows_transition_table:
  assumes "findAppointment d i = Some a"
    and "hasPermission d cu a = Inr True"
    and "upd_status u = Some to"
  shows "((status a, to) \<in> set specTransitions \<longrightarrow>
            (\<exists>a'. fst (update_appointment d cu i u now) = Inr a' \<and> status a' = to
                \<and> findAppointment (snd (update_appointment d cu i u now)) i = Some a'))
       \<and> ((status a, to) \<notin> set specTransitions \<longrightarrow>
            update_appointment d cu i u now = (Inl (IllegalStatusTransition (status a) to), d)
          \<and> update_appointment (snd (update_appointment d cu i u now)) cu i u now
              = (Inl (IllegalStatusTransition (status a) to), d))
       \<and> (status a \<in> {COMPLETED, CANCELLED, NO_SHOW} \<longrightarrow>
            (status a, to) \<notin> set specTransitions)"
proof (intro conjI impI)
  assume "(status a, to) \<in> set specTransitions"
  then have ok: "to \<in> set (validTransitions (status a))"
    by (simp add: validTransitions_table)
  have res: "update_appointment d cu i u now
               = (Inr (updateData u now a), updateRow d i (updateData u now))"
    using assms ok by (simp add: update_appointment_def)
  have "status (updateData u now a) = to"
    using assms(3) by (simp add: updateData_def orElse_def)
  moreover have "findAppointment (updateRow d i (updateData u now)) i
                   = Some (updateData u now a)"
    using assms(1) by (simp add: find_updateRow)
  ultimately show "\<exists>a'. fst (update_appointment d cu i u now) = Inr a' \<and> status a' = to
      \<and> findAppointment (snd (update_appointment d cu i u now)) i = Some a'"
    using res by simp
next
  assume "(status a, to) \<notin> set specTransitions"
  then have no: "to \<notin> set (validTransitions (status a))"
    by (simp add: validTransitions_table)
  show fails: "update_appointment d cu i u now
                 = (Inl (IllegalStatusTransition (status a) to), d)"
    using assms no by (simp add: update_appointment_def)
  then show "update_appointment (snd (update_appointment d cu i u now)) cu i u now
               = (Inl (IllegalStatusTransition (status a) to), d)"
    by simp
next
  assume "status a \<in> {COMPLETED, CANCELLED, NO_SHOW}"
  then show "(status a, to) \<notin> set specTransitions"
    by (rule terminal_has_no_transition)
qed

text \<open>
  C6 at the scheduled first hour, updated by its client: confirming it succeeds; completing
  it directly fails and fails again; and cancelling the cancelled hour fails twice.
\<close>

theorem update_status_follows_transition_table_witness:
  "(\<exists>a'. fst (update_appointment (dbWith (Some (Num 120)) [firstHour]) client1 ''a1'' confirmIt t0)
            = Inr a'
         \<and> status a' = CONFIRMED
         \<and> findAppointment
              (snd (update_appointment (dbWith (Some (Num 120)) [firstHour]) client1 ''a1'' confirmIt t0))
              ''a1'' = Some a')
   \<and> update_appointment (dbWith (Some (Num 120)) [firstHour]) client1 ''a1'' completeIt t0
       = (Inl (IllegalStatusTransition SCHEDULED COMPLETED), dbWith (Some (Num 120)) [firstHour])
   \<and> update_appointment
        (snd (update_appointment (dbWith (Some (Num 120)) [firstHour]) client1 ''a1'' completeIt t0))
        client1 ''a1'' completeIt t0
       = (Inl (IllegalStatusTransition SCHEDULED COMPLETED), dbWith (Some (Num 120)) [firstHour])
   \<and> update_appointment (dbWith (Some (Num 120)) [cancelledHour]) client1 ''a1'' cancelIt t0
       = (Inl (IllegalStatusTransition CANCELLED CANCELLED), dbWith (Some (Num 120)) [cancelledHour])
   \<and> update_appointment
        (snd (update_appointment (dbWith (Some (Num 120)) [cancelledHour]) client1 ''a1'' cancelIt t0))
        client1 ''a1'' cancelIt t0
       = (Inl (IllegalStatusTransition CANCELLED CANCELLED), dbWith (Some (Num 120)) [cancelledHour])"
proof -
  have f: "findAppointment (dbWith (Some (Num 120)) [firstHour]) ''a1'' = Some firstHour"
    and g: "findAppointment (dbWith (Some (Num 120)) [cancelledHour]) ''a1'' = Some cancelledHour"
    by (simp_all add: findAppointment_def newAppointment_def Let_def scenario_defs
          cancelledHour_def)
  have p: "hasPermission (dbWith (Some (Num 120)) [firstHour]) client1 firstHour = Inr True"
    and q: "hasPermission (dbWith (Some (Num 120)) [cancelledHour]) client1 cancelledHour = Inr True"
    by (simp_all add: hasPermission_def newAppointment_def Let_def scenario_defs
          cancelledHour_def)
  have s: "status firstHour = SCHEDULED" and t: "status cancelledHour = CANCELLED"
    by (simp_all add: newAppointment_def Let_def scenario_defs cancelledHour_def)
  have c1: "upd_status confirmIt = Some CONFIRMED"
    and c2: "upd_status completeIt = Some COMPLETED"
    and c3: "upd_status cancelIt = Some CANCELLED"
    by (simp_all add: noChange_def confirmIt_def completeIt_def cancelIt_def)
  from update_status_follows_transition_table [OF f p c1, of t0]
       update_status_follows_transition_table [OF f p c2, of t0]
       update_status_follows_transition_table [OF g q c3, of t0]
  show ?thesis
    unfolding s t by (simp add: specTransitions_def)
qed

subsection \<open>Booking window\<close>




subsection \<open>Back-to-back appointments\<close>

text \<open>
  Claim C8, as amended: an existing appointment whose end is after its start and that is
  back-to-back with the request, the request starting at its end or ending at its start,
  does not match the conflict query, so it is never the conflicting row; when no other row
  matches, creation does not fail with a scheduling conflict.
\<close>

theorem back_to_back_is_no_conflict:
  assumes "startTime e < endTime e"
    and "req_startTime r = endTime e \<or> req_endTime r = startTime e"
  shows "\<not> conflictWhere (req_providerId r) (req_startTime r) (req_endTime r) e
       \<and> find (conflictWhere (req_providerId r) (req_startTime r) (req_endTime r))
            (appointments d) \<noteq> Some e
       \<and> (list_all (\<lambda>x. x = e
                      \<or> \<not> conflictWhere (req_providerId r) (req_startTime r) (req_endTime r) x)
            (appointments d) \<longrightarrow>
          fst (create_appointment z d cu r now1 now2 i) \<noteq> Inl SchedulingConflict)"
proof -
  let ?P = "conflictWhere (req_providerId r) (req_startTime r) (req_endTime r)"
  have no: "\<not> ?P e"
    using assms by (auto simp: conflictWhere_def)
  have nf: "find ?P (appointments d) \<noteq> Some e"
    using no by (auto simp: find_Some_iff)
  have "find ?P (appointments d) = None"
    if "list_all (\<lambda>x. x = e \<or> \<not> ?P x) (appointments d)"
    using that no by (auto simp: find_None_iff list_all_iff)
  then have "fst (create_appointment z d cu r now1 now2 i) \<noteq> Inl SchedulingConflict"
    if "list_all (\<lambda>x. x = e \<or> \<not> ?P x) (appointments d)"
    using that by (auto simp: create_appointment_def Let_def split: option.splits)
  with no nf show ?thesis by blast
qed

text \<open>
  C8 as amended, at the two scheduled hours of the provider: the request for 11:00 to 12:00 against
  the hour from 10:00, and the request for 10:00 to 11:00 against the hour from 11:00.
\<close>

theorem back_to_back_is_no_conflict_witness:
  "active firstHour \<and> providerId firstHour = req_providerId secondHourRequest
   \<and> req_startTime secondHourRequest = endTime firstHour
   \<and> \<not> conflictWhere (req_providerId secondHourRequest) (req_startTime secondHourRequest)
         (req_endTime secondHourRequest) firstHour
   \<and> fst (create_appointment utcZone (dbWith (Some (Num 120)) [firstHour]) client1 secondHourRequest
            t0 t0 ''a2'') \<noteq> Inl SchedulingConflict
   \<and> active secondHour \<and> providerId secondHour = req_providerId firstHourRequest
   \<and> req_endTime firstHourRequest = startTime secondHour
   \<and> \<not> conflictWhere (req_providerId firstHourRequest) (req_startTime firstHourRequest)
         (req_endTime firstHourRequest) secondHour
   \<and> fst (create_appointment utcZone (dbWith (Some (Num 120)) [secondHour]) client1 firstHourRequest
            t0 t0 ''a1'') \<noteq> Inl SchedulingConflict"
proof -
  have a: "active firstHour" "providerId firstHour = req_providerId secondHourRequest"
    "active secondHour" "providerId secondHour = req_providerId firstHourRequest"
    by (simp_all add: active_def newAppointment_def Let_def scenario_defs secondHour_def
          secondHourRequest_def)
  have b: "startTime firstHour < endTime firstHour"
    "req_startTime secondHourRequest = endTime firstHour"
    "startTime secondHour < endTime secondHour"
    "req_endTime firstHourRequest = startTime secondHour"
    by (simp_all add: newAppointment_def Let_def scenario_defs secondHour_def
          secondHourRequest_def)
  from back_to_back_is_no_conflict
         [of firstHour secondHourRequest "dbWith (Some (Num 120)) [firstHour]" utcZone client1
             t0 t0 "''a2''"]
       back_to_back_is_no_conflict
         [of secondHour firstHourRequest "dbWith (Some (Num 120)) [secondHour]" utcZone client1
             t0 t0 "''a1''"]
       a b
  show ?thesis by (simp add: dbWith_def)
qed

text \<open>
  Claim C8 as stated, for every existing appointment, fails at a row that is no proper
  interval, and creation stores such rows. The request of length zero at 11:00 is stored
  as a scheduled row from 11:00 to 11:00. The request for 11:00 to 12:00 starts at the end
  of that row and does not overlap it, yet the row starts inside the requested interval,
  matches the conflict query, and the request fails with a scheduling conflict.
\<close>

theorem zero_length_row_blocks_back_to_back:
  "create_appointment utcZone (dbWith (Some (Num 120)) []) client1 emptyRequest t0 t0 ''a1''
     = (Inr emptySlot, dbWith (Some (Num 120)) [emptySlot])
   \<and> active emptySlot
   \<and> providerId emptySlot = req_providerId secondHourRequest
   \<and> req_startTime secondHourRequest = endTime emptySlot
   \<and> \<not> overlaps (req_startTime secondHourRequest) (req_endTime secondHourRequest)
          (startTime emptySlot) (endTime emptySlot)
   \<and> create_appointment utcZone (dbWith (Some (Num 120)) [emptySlot]) client1
        secondHourRequest t0 t0 ''a2''
       = (Inl SchedulingConflict, dbWith (Some (Num 120)) [emptySlot])"
  by (simp add: model_defs scenario_defs spec_defs emptyRequest_def emptySlot_def
        secondHourRequest_def)

subsection \<open>Cancellation\<close>

text \<open>
  Claim C9: both operations that move an appointment into \<open>CANCELLED\<close> store the status,
  \<open>cancelledAt\<close> (the clock of the request) and the reason of the request in the one write
  that the handler makes. The cancel operation leaves every other field of the row as it
  was; the reason is the one given, and the stored one is kept when the request gives none.
  The update operation with the status \<open>CANCELLED\<close> does the same, and beyond that changes
  only the fields for which the request itself carries a new value.
\<close>

theorem cancellation_writes_status_time_and_reason:
  "(cancel_appointment d cu i rsn now = (Inr a', d') \<longrightarrow>
      (\<exists>a. findAppointment d i = Some a
          \<and> a' = a\<lparr> status := CANCELLED, cancelledAt := Some now,
                    cancellationReason :=
                      (case rsn of Absent \<Rightarrow> cancellationReason a
                       | Null \<Rightarrow> None | Text s \<Rightarrow> Some s) \<rparr>
          \<and> findAppointment d' i = Some a'))
   \<and> (update_appointment d cu i u now = (Inr a', d') \<and> upd_status u = Some CANCELLED \<longrightarrow>
      (\<exists>a. findAppointment d i = Some a
          \<and> status a' = CANCELLED \<and> cancelledAt a' = Some now
          \<and> cancellationReason a'
              = (case upd_cancellationReason u of
                   None \<Rightarrow> cancellationReason a | Some s \<Rightarrow> Some s)
          \<and> findAppointment d' i = Some a'
          \<and> id' a' = id' a \<and> clientId a' = clientId a \<and> providerId a' = providerId a
          \<and> serviceType a' = serviceType a \<and> duration a' = duration a
          \<and> hourlyRate a' = hourlyRate a \<and> totalAmount a' = totalAmount a
          \<and> (upd_title u = None \<longrightarrow> title a' = title a)
          \<and> (upd_description u = None \<longrightarrow> description a' = description a)
          \<and> (upd_startTime u = None \<longrightarrow> startTime a' = startTime a)
          \<and> (upd_endTime u = None \<longrightarrow> endTime a' = endTime a)
          \<and> (upd_isRemote u = None \<longrightarrow> isRemote a' = isRemote a)
          \<and> (upd_location u = None \<longrightarrow> location a' = location a)
          \<and> (upd_meetingLink u = None \<longrightarrow> meetingLink a' = meetingLink a)
          \<and> (upd_notes u = None \<longrightarrow> notes' a' = notes' a)
          \<and> (upd_goals u = None \<longrightarrow> goals a' = goals a)
          \<and> (upd_materials u = None \<longrightarrow> materials a' = materials a)
          \<and> (upd_homework u = None \<longrightarrow> homework a' = homework a)))"
proof (intro conjI impI)
  assume c: "cancel_appointment d cu i rsn now = (Inr a', d')"
  then obtain a where a: "findAppointment d i = Some a"
    by (auto simp: cancel_appointment_def split: option.splits)
  from c a have r: "a' = cancelData rsn now a" "d' = updateRow d i (cancelData rsn now)"
    by (auto simp: cancel_appointment_def split: sum.splits if_splits)
  have "findAppointment d' i = Some a'"
    using a r by (simp add: find_updateRow)
  with a r(1)
  show "\<exists>a. findAppointment d i = Some a
          \<and> a' = a\<lparr> status := CANCELLED, cancelledAt := Some now,
                    cancellationReason :=
                      (case rsn of Absent \<Rightarrow> cancellationReason a
                       | Null \<Rightarrow> None | Text s \<Rightarrow> Some s) \<rparr>
          \<and> findAppointment d' i = Some a'"
    by (simp add: cancelData_def)
next
  assume "update_appointment d cu i u now = (Inr a', d') \<and> upd_status u = Some CANCELLED"
  then have c: "update_appointment d cu i u now = (Inr a', d')"
    and s: "upd_status u = Some CANCELLED"
    by simp_all
  from c obtain a where a: "findAppointment d i = Some a"
    by (auto simp: update_appointment_def split: option.splits)
  from c a s have r: "a' = updateData u now a" "d' = updateRow d i (updateData u now)"
    by (auto simp: update_appointment_def split: sum.splits if_splits)
  have f: "findAppointment d' i = Some a'"
    using a r by (simp add: find_updateRow)
  show "\<exists>a. findAppointment d i = Some a
          \<and> status a' = CANCELLED \<and> cancelledAt a' = Some now
          \<and> cancellationReason a'
              = (case upd_cancellationReason u of
                   None \<Rightarrow> cancellationReason a | Some s \<Rightarrow> Some s)
          \<and> findAppointment d' i = Some a'
          \<and> id' a' = id' a \<and> clientId a' = clientId a \<and> providerId a' = providerId a
          \<and> serviceType a' = serviceType a \<and> duration a' = duration a
          \<and> hourlyRate a' = hourlyRate a \<and> totalAmount a' = totalAmount a
          \<and> (upd_title u = None \<longrightarrow> title a' = title a)
          \<and> (upd_description u = None \<longrightarrow> description a' = description a)
          \<and> (upd_startTime u = None \<longrightarrow> startTime a' = startTime a)
          \<and> (upd_endTime u = None \<longrightarrow> endTime a' = endTime a)
          \<and> (upd_isRemote u = None \<longrightarrow> isRemote a' = isRemote a)
          \<and> (upd_location u = None \<longrightarrow> location a' = location a)
          \<and> (upd_meetingLink u = None \<longrightarrow> meetingLink a' = meetingLink a)
          \<and> (upd_notes u = None \<longrightarrow> notes' a' = notes' a)
          \<and> (upd_goals u = None \<longrightarrow> goals a' = goals a)
          \<and> (upd_materials u = None \<longrightarrow> materials a' = materials a)
          \<and> (upd_homework u = None \<longrightarrow> homework a' = homework a)"
    using a f s unfolding r(1) by (simp add: updateData_def orElse_def orKeep_def)
qed

text \<open>
  C9 at the scheduled first hour, cancelled by its client with the reason \<open>ill\<close>, through
  the cancel operation and through an update that carries the status and the reason only:
  both store the row \<open>cancelledHour\<close>, which differs from \<open>firstHour\<close> in the three fields.
\<close>

theorem cancellation_writes_status_time_and_reason_witness:
  "cancel_appointment (dbWith (Some (Num 120)) [firstHour]) client1 ''a1'' (Text ''ill'') t0
     = (Inr cancelledHour, dbWith (Some (Num 120)) [cancelledHour])
   \<and> update_appointment (dbWith (Some (Num 120)) [firstHour]) client1 ''a1'' cancelIt t0
     = (Inr cancelledHour, dbWith (Some (Num 120)) [cancelledHour])
   \<and> upd_status cancelIt = Some CANCELLED
   \<and> findAppointment (dbWith (Some (Num 120)) [firstHour]) ''a1'' = Some firstHour
   \<and> cancelledHour
       = firstHour\<lparr>status := CANCELLED, cancelledAt := Some t0,
                   cancellationReason := Some ''ill''\<rparr>
   \<and> findAppointment (dbWith (Some (Num 120)) [cancelledHour]) ''a1'' = Some cancelledHour
   \<and> title cancelledHour = title firstHour
   \<and> startTime cancelledHour = startTime firstHour
   \<and> endTime cancelledHour = endTime firstHour
   \<and> totalAmount cancelledHour = totalAmount firstHour"
proof -
  have c: "cancel_appointment (dbWith (Some (Num 120)) [firstHour]) client1 ''a1'' (Text ''ill'') t0
             = (Inr cancelledHour, dbWith (Some (Num 120)) [cancelledHour])"
    by (simp add: model_defs scenario_defs cancelledHour_def)
  have u: "update_appointment (dbWith (Some (Num 120)) [firstHour]) client1 ''a1'' cancelIt t0
             = (Inr cancelledHour, dbWith (Some (Num 120)) [cancelledHour])"
    by (simp add: model_defs scenario_defs cancelledHour_def cancelIt_def)
  have s: "upd_status cancelIt = Some CANCELLED"
    by (simp add: noChange_def cancelIt_def)
  have f: "findAppointment (dbWith (Some (Num 120)) [firstHour]) ''a1'' = Some firstHour"
    by (simp add: findAppointment_def newAppointment_def Let_def scenario_defs)
  from cancellation_writes_status_time_and_reason
         [of "dbWith (Some (Num 120)) [firstHour]" client1 "''a1''" "Text ''ill''" t0
             cancelledHour "dbWith (Some (Num 120)) [cancelledHour]" cancelIt]
       c u s f
  show ?thesis by (simp add: scenario_defs cancelledHour_def cancelIt_def)
qed

subsection \<open>Provider without rate\<close>

text \<open>
  Claim C10: for a verified provider whose \<open>hourlyRate\<close> is null, a request with a start
  inside the booking window and no row matching the conflict query is stored, scheduled,
  with the rate 0 and the amount 0.
\<close>

theorem create_with_unset_rate:
  assumes "findProvider d (req_providerId r) = Some prov"
    and "licenseVerified prov" and "backgroundCheck prov"
    and "p_hourlyRate prov = None"
    and "now1 \<le> req_startTime r" and "req_startTime r \<le> addDays z now2 90"
    and "find (conflictWhere (req_providerId r) (req_startTime r) (req_endTime r))
           (appointments d) = None"
  shows "\<exists>a. create_appointment z d cu r now1 now2 i
               = (Inr a, d\<lparr>appointments := appointments d @ [a]\<rparr>)
           \<and> hourlyRate a = Num 0 \<and> totalAmount a = Num 0 \<and> status a = SCHEDULED"
proof -
  let ?a = "newAppointment cu prov r i"
  from assms(1-3,5-7)
  have "create_appointment z d cu r now1 now2 i
          = (Inr ?a, d\<lparr>appointments := appointments d @ [?a]\<rparr>)"
    by (intro create_success)
  moreover have "hourlyRate ?a = Num 0" and "totalAmount ?a = Num 0"
    and "status ?a = SCHEDULED"
    using assms(4) by (simp_all add: newAppointment_def orZero_def Let_def)
  ultimately show ?thesis by blast
qed

text \<open>C10 at the first hour requested from a provider without rate.\<close>

theorem create_with_unset_rate_witness:
  "p_hourlyRate (providerWith None) = None
   \<and> (\<exists>a. create_appointment utcZone (dbWith None []) client1 firstHourRequest t0 t0 ''a1''
             = (Inr a, (dbWith None [])\<lparr>appointments := appointments (dbWith None []) @ [a]\<rparr>)
          \<and> hourlyRate a = Num 0 \<and> totalAmount a = Num 0 \<and> status a = SCHEDULED)
   \<and> hourlyRate unpricedHour = Num 0 \<and> totalAmount unpricedHour = Num 0"
proof -
  have "hourlyRate unpricedHour = Num 0" and "totalAmount unpricedHour = Num 0"
    by (simp_all add: newAppointment_def orZero_def Let_def scenario_defs unpricedHour_def)
  with create_with_unset_rate
         [of "dbWith None []" firstHourRequest "providerWith None" t0 utcZone t0 client1 "''a1''"]
  show ?thesis
    by (simp add: findProvider_def addDays_def scenario_defs)
qed

end
